theory Spec2Isabelle
  imports Complex_Main "HOL-Library.Signed_Division" "HOL-Library.AList"
begin

section \<open>Errors and panics\<close>

text \<open>
  Go functions of the repository report failure in two ways: a returned \<^verbatim>\<open>error\<close> value and
  a panic. Both are values of one datatype here, so that a theorem can tell them apart.
\<close>

datatype error =
    ZoomRangeError
      \<comment> \<open>\<^verbatim>\<open>var ZoomRangeError = errors.New("zoom value is out of range [0, 24]")\<close>\<close>
  | LatitudeError real
      \<comment> \<open>\<^verbatim>\<open>fmt.Errorf("latitude %s value cannot be represented by tile coordinates", d.Lat)\<close>\<close>
  | ZoomPanic
      \<comment> \<open>\<^verbatim>\<open>panic("zoom value is out of range [0, 24]")\<close> of \<^verbatim>\<open>checkZoom\<close>\<close>
  | IndexPanic
      \<comment> \<open>run-time panic of an array index out of range (\<^verbatim>\<open>two[z]\<close>)\<close>
  | NotCached
      \<comment> \<open>\<^verbatim>\<open>errors.New("tile is not cached")\<close>\<close>
  | WrongZoomLevel int int
      \<comment> \<open>\<^verbatim>\<open>SparsePointServer: Get called with zoom level %d, but only %d is available\<close>\<close>
  | EOF
      \<comment> \<open>\<^verbatim>\<open>io.EOF\<close>\<close>
  | WrongCorners
      \<comment> \<open>\<^verbatim>\<open>wrong definition for top left or buttom right corners\<close>\<close>
  | TooLarge int int
      \<comment> \<open>\<^verbatim>\<open>requested map is too large: %d tiles (>%d)\<close>\<close>
  | PathUnset
      \<comment> \<open>\<^verbatim>\<open>errors.New("the local tile server path is unset")\<close>\<close>
  | IOError
      \<comment> \<open>an error of the operating system or the network (open, create, mkdir, http)\<close>
  | DecodeError
      \<comment> \<open>\<^verbatim>\<open>png.Decode\<close> failed, or \<^verbatim>\<open>png tile size is not 256x256\<close>\<close>

section \<open>Zoom levels and tile indexes (tile/tile.go)\<close>

text \<open>
  Go's \<^verbatim>\<open>int\<close> is modelled by \<^typ>\<open>int\<close>: for zoom levels in \<open>[0, 24]\<close> no operation below
  leaves the 32 bit range when its inputs are in it. Go's \<^verbatim>\<open>%\<close> truncates towards zero,
  which is \<open>smod\<close>.
\<close>

definition checkZoom :: "int \<Rightarrow> error + unit" where
  "checkZoom z = (if z < 0 \<or> z > 24 then Inl ZoomPanic else Inr ())"

definition NumTiles :: "int \<Rightarrow> int" where
  "NumTiles z = (if z < 0 \<or> z > 24 then 0 else 2 ^ nat z)"

definition normalizeTile :: "int \<Rightarrow> int \<Rightarrow> int \<Rightarrow> error + (int \<times> int)" where
  "normalizeTile z x y =
     (case checkZoom z of
        Inl e \<Rightarrow> Inl e
      | Inr _ \<Rightarrow>
          (let m = NumTiles z;
               x1 = x smod m;
               y1 = y smod m;
               x2 = (if x1 < 0 then x1 + m else x1);
               y2 = (if y1 < 0 then y1 + m else y1)
           in Inr (x2, y2)))"

section \<open>Projection (coordinates.go)\<close>

text \<open>
  \<^verbatim>\<open>type Degree float64\<close>. Floating point numbers are idealised as real numbers: the
  arithmetic is exact and there is no NaN and no infinity. The comparisons, the branches
  and the truncations of the source are kept as they are written.
\<close>

type_synonym Degree = real

definition Radians :: "Degree \<Rightarrow> real" where
  "Radians d = d / 180 * pi"

record LatLon =
  Lat :: Degree
  Lon :: Degree

record XY =
  X :: int
  Y :: int
  XP :: int
  YP :: int
  Z :: int

text \<open>The zero value \<^verbatim>\<open>XY{}\<close>, returned next to an error.\<close>

definition XY_zero :: XY where
  "XY_zero = \<lparr>X = 0, Y = 0, XP = 0, YP = 0, Z = 0\<rparr>"

text \<open>
  Go's conversion \<^verbatim>\<open>int(f)\<close> of a float discards the fraction (truncation towards zero)
  when the result fits \<^verbatim>\<open>int\<close>; what it gives for a larger value depends on the platform and
  is not modelled. \<open>float_to_int\<close> is the truncation, so it is the conversion for values of
  magnitude below \<open>2^31\<close>, and below \<open>2^63\<close> where \<^verbatim>\<open>int\<close> has 64 bits.
\<close>

definition float_to_int :: "real \<Rightarrow> int" where
  "float_to_int r = (if 0 \<le> r then \<lfloor>r\<rfloor> else \<lceil>r\<rceil>)"

text \<open>\<^verbatim>\<open>var two [25]float64\<close>, filled by \<^verbatim>\<open>init\<close> with \<open>2^i\<close>; an index outside panics.\<close>

definition two :: "int \<Rightarrow> error + real" where
  "two i = (if 0 \<le> i \<and> i < 25 then Inr (2 ^ nat i) else Inl IndexPanic)"

definition MaxLatitude :: Degree where
  "MaxLatitude = 85.05112877980659"

text \<open>\<^verbatim>\<open>func (xy XY) LatLon() LatLon\<close>\<close>

definition XY_LatLon :: "XY \<Rightarrow> error + LatLon" where
  "XY_LatLon xy =
     (let x = real_of_int (X xy) + real_of_int (XP xy) / 256;
          y = real_of_int (Y xy) + real_of_int (YP xy) / 256
      in case two (Z xy) of
           Inl e \<Rightarrow> Inl e
         | Inr t \<Rightarrow>
             (let n = pi - 2 * pi * y / t
              in Inr \<lparr>Lat = 180 / pi * arctan (0.5 * (exp n - exp (- n))),
                      Lon = x / t * 360 - 180\<rparr>))"

text \<open>\<^verbatim>\<open>func MinLatitude(z int) Degree\<close>; \<^verbatim>\<open>(1 << uint(z)) - 1\<close> is \<open>2^z - 1\<close> after \<^verbatim>\<open>checkZoom\<close>.\<close>

definition MinLatitude :: "int \<Rightarrow> error + Degree" where
  "MinLatitude z =
     (case checkZoom z of
        Inl e \<Rightarrow> Inl e
      | Inr _ \<Rightarrow>
          (case XY_LatLon \<lparr>X = 2 ^ nat z - 1, Y = 2 ^ nat z - 1, XP = 255, YP = 255, Z = z\<rparr> of
             Inl e \<Rightarrow> Inl e
           | Inr ll \<Rightarrow> Inr (Lat ll)))"

text \<open>
  \<^verbatim>\<open>func (d LatLon) XY(z int) (XY, error)\<close>. Both results are kept, since a caller
  (\<^verbatim>\<open>PointServer.Get\<close>) reads the \<^verbatim>\<open>XY\<close> next to a non-nil error. The panics of
  \<^verbatim>\<open>MinLatitude\<close> and \<^verbatim>\<open>two[z]\<close> are written as errors here; they are out of reach
  behind the zoom check (lemma \<open>MinLatitude_in_range\<close>).
\<close>

definition LatLon_XY :: "LatLon \<Rightarrow> int \<Rightarrow> XY \<times> error option" where
  "LatLon_XY d z =
     (if z < 0 \<or> z > 24 then (XY_zero, Some ZoomRangeError)
      else case MinLatitude z of
        Inl e \<Rightarrow> (XY_zero, Some e)
      | Inr minlat \<Rightarrow>
          if Lat d < minlat \<or> Lat d > MaxLatitude then (XY_zero, Some (LatitudeError (Lat d)))
          else case two z of
            Inl e \<Rightarrow> (XY_zero, Some e)
          | Inr t \<Rightarrow>
              (let x = (Lon d + 180) / 360 * t;
                   y = (1 - ln (tan (Radians (Lat d)) + 1 / cos (Radians (Lat d))) / pi) / 2 * t
               in (\<lparr>X = float_to_int x,
                    Y = float_to_int y,
                    XP = float_to_int (256 * (x - real_of_int (float_to_int x))),
                    YP = float_to_int (256 * (y - real_of_int (float_to_int y))),
                    Z = z\<rparr>, None)))"






section \<open>Images\<close>

text \<open>
  An image is its bounds \<open>[0, Dx) \<times> [0, Dy)\<close> and its pixels. \<^verbatim>\<open>Set\<close> of the standard
  library's image types ignores a point outside the bounds; the conversion of the colour to
  the image's colour model is not modelled.
\<close>

datatype colour = Transparent | Opaque | Black | RGBA nat nat nat nat

record image =
  Dx :: int
  Dy :: int
  pix :: "int \<times> int \<Rightarrow> colour"

definition image_Set :: "image \<Rightarrow> int \<Rightarrow> int \<Rightarrow> colour \<Rightarrow> image" where
  "image_Set im x y c =
     (if 0 \<le> x \<and> x < Dx im \<and> 0 \<le> y \<and> y < Dy im
      then im\<lparr>pix := (pix im)((x, y) := c)\<rparr> else im)"

text \<open>\<^verbatim>\<open>image.NewAlpha(image.Rect(0, 0, 256, 256))\<close>: every pixel transparent.\<close>

definition NewAlpha :: image where
  "NewAlpha = \<lparr>Dx = 256, Dy = 256, pix = (\<lambda>_. Transparent)\<rparr>"

text \<open>The image that \<^verbatim>\<open>init\<close> draws for \<^verbatim>\<open>var black Tile\<close>.\<close>

definition black_image :: image where
  "black_image = \<lparr>Dx = 256, Dy = 256, pix = (\<lambda>_. Black)\<rparr>"

section \<open>CacheServer (tile/tile.go)\<close>

text \<open>
  The key \<^verbatim>\<open>[3]int{z, x, y}\<close>. The map \<^verbatim>\<open>m\<close> is an association list with one entry per
  key, \<open>None\<close> for the nil map of a zero-value \<^verbatim>\<open>CacheServer\<close>; \<^verbatim>\<open>len(c.m)\<close> is its length.
  The field is named \<open>cache_m\<close>, as a constant \<open>m\<close> would capture every variable of that
  name. The mutex is left out: calls are sequential here.
\<close>

type_synonym key = "int \<times> int \<times> int"

record 't CacheServer =
  maxTiles :: int
  cache_m :: "(key \<times> 't) list option"

definition is_panic :: "error \<Rightarrow> bool" where
  "is_panic e = (e = ZoomPanic \<or> e = IndexPanic)"

definition CacheServer_Get :: "'t CacheServer \<Rightarrow> int \<Rightarrow> int \<Rightarrow> int \<Rightarrow> error + 't" where
  "CacheServer_Get c z x0 y0 =
     (case normalizeTile z x0 y0 of
        Inl e \<Rightarrow> Inl e
      | Inr (x, y) \<Rightarrow>
          (case cache_m c of
             None \<Rightarrow> Inl NotCached
           | Some al \<Rightarrow>
               (case map_of al (z, x, y) of
                  None \<Rightarrow> Inl NotCached
                | Some t \<Rightarrow> Inr t)))"

definition CacheServer_Add ::
  "'t CacheServer \<Rightarrow> int \<Rightarrow> int \<Rightarrow> int \<Rightarrow> 't \<Rightarrow> error + 't CacheServer" where
  "CacheServer_Add c z x0 y0 t =
     (case normalizeTile z x0 y0 of
        Inl e \<Rightarrow> Inl e
      | Inr (x, y) \<Rightarrow>
          (case cache_m c of
             None \<Rightarrow> Inr c
           | Some al \<Rightarrow>
               if maxTiles c = 0 \<or> int (length al) < maxTiles c
               then Inr (c\<lparr>cache_m := Some (AList.update (z, x, y) t al)\<rparr>)
               else Inr c))"

definition NewCacheServer :: "int \<Rightarrow> 't CacheServer" where
  "NewCacheServer k = \<lparr>maxTiles = k, cache_m = Some []\<rparr>"

text \<open>\<^verbatim>\<open>var c CacheServer\<close>: the zero value, never enabled by \<^verbatim>\<open>NewCacheServer\<close>.\<close>

definition zero_CacheServer :: "'t CacheServer" where
  "zero_CacheServer = \<lparr>maxTiles = 0, cache_m = None\<rparr>"

text \<open>
  The map key of a tile address: \<^verbatim>\<open>x, y = normalizeTile(z, x, y)\<close>, then
  \<^verbatim>\<open>[3]int{z, x, y}\<close>, as \<^verbatim>\<open>Get\<close> and \<^verbatim>\<open>Add\<close> both compute it.
\<close>

definition cache_key :: "key \<Rightarrow> error + key" where
  "cache_key k =
     (case k of (z, x0, y0) \<Rightarrow>
        (case normalizeTile z x0 y0 of
           Inl e \<Rightarrow> Inl e
         | Inr (x, y) \<Rightarrow> Inr (z, x, y)))"

text \<open>A sequence of \<^verbatim>\<open>Add\<close> calls, in order; a panic ends it.\<close>

fun add_all :: "'t CacheServer \<Rightarrow> (key \<times> 't) list \<Rightarrow> error + 't CacheServer" where
  "add_all c [] = Inr c"
| "add_all c (((z, x, y), t) # kts) =
     (case CacheServer_Add c z x y t of
        Inl e \<Rightarrow> Inl e
      | Inr c' \<Rightarrow> add_all c' kts)"

text \<open>
  For a zoom level in \<open>[0, 24]\<close> the map key is \<open>wrapped\<close> (lemma \<open>cache_key_valid\<close>);
  \<open>admitted K n0 n\<close> is the number of the next \<open>n\<close> new keys that a cache of capacity
  \<open>K\<close> holding \<open>n0\<close> entries stores. Both are used in the proofs only.
\<close>

definition wrapped :: "key \<Rightarrow> key" where
  "wrapped k = (case k of (z, x, y) \<Rightarrow> (z, x mod 2 ^ nat z, y mod 2 ^ nat z))"


section \<open>PointServer and SparsePointServer (tile/tile.go)\<close>

record PointServer =
  Color :: colour
  File :: string
  coords :: "LatLon list"

text \<open>
  \<^verbatim>\<open>func (p *PointServer) Get(z, x, y int) (Tile, error)\<close>. The body of the loop is
  \<^verbatim>\<open>if xy, err := c.XY(z); err != nil { if xy.X == x && xy.Y == y { im.Set(xy.XP, xy.YP, color.Opaque) } }\<close>:
  the inner test is reached when the conversion returned an error.
\<close>

definition PointServer_Get :: "PointServer \<Rightarrow> int \<Rightarrow> int \<Rightarrow> int \<Rightarrow> error + image" where
  "PointServer_Get p z x y =
     Inr (foldl
       (\<lambda>im c.
          case LatLon_XY c z of
            (xy, err) \<Rightarrow>
              if err \<noteq> None
              then (if X xy = x \<and> Y xy = y then image_Set im (XP xy) (YP xy) Opaque else im)
              else im)
       NewAlpha (coords p))"

text \<open>
  \<^verbatim>\<open>type point struct { x, y int }\<close> is a pair. The fields \<^verbatim>\<open>z\<close>, \<^verbatim>\<open>points\<close>, \<^verbatim>\<open>keys\<close>,
  \<^verbatim>\<open>p\<close> of \<^verbatim>\<open>SparsePointServer\<close> carry the prefix \<open>sp_\<close>, as constants of these names
  would capture variables; the map \<^verbatim>\<open>points\<close> is an association list.
\<close>

type_synonym point = "int \<times> int"

record SparsePointServer =
  sp_z :: int
  sp_points :: "(point \<times> point list) list"
  sp_keys :: "point list"
  sp_p :: int

text \<open>The loop of \<^verbatim>\<open>NewSparsePointServer\<close> over the points.\<close>

fun addPoints :: "int \<Rightarrow> LatLon list \<Rightarrow> SparsePointServer \<Rightarrow> error + SparsePointServer" where
  "addPoints z [] s = Inr s"
| "addPoints z (ll # lls) s =
     (case LatLon_XY ll z of
        (xy, Some err) \<Rightarrow> Inl err
      | (xy, None) \<Rightarrow>
          (let key = (X xy, Y xy);
               ok = (map_of (sp_points s) key \<noteq> None);
               pts = (case map_of (sp_points s) key of None \<Rightarrow> [] | Some ps \<Rightarrow> ps) @ [(XP xy, YP xy)];
               s1 = s\<lparr>sp_points := AList.update key pts (sp_points s)\<rparr>;
               s2 = (if \<not> ok then s1\<lparr>sp_keys := sp_keys s1 @ [key]\<rparr> else s1)
           in addPoints z lls s2))"

definition NewSparsePointServer :: "int \<Rightarrow> LatLon list \<Rightarrow> error + SparsePointServer" where
  "NewSparsePointServer z points =
     (if z < 0 \<or> z > 24 then Inl ZoomRangeError
      else addPoints z points \<lparr>sp_z = z, sp_points = [], sp_keys = [], sp_p = 0\<rparr>)"

definition SparsePointServer_Get ::
  "SparsePointServer \<Rightarrow> int \<Rightarrow> int \<Rightarrow> int \<Rightarrow> error + image" where
  "SparsePointServer_Get s z x y =
     (if z \<noteq> sp_z s then Inl (WrongZoomLevel z (sp_z s))
      else Inr (case map_of (sp_points s) (x, y) of
                  None \<Rightarrow> NewAlpha
                | Some points \<Rightarrow> foldl (\<lambda>im pt. image_Set im (fst pt) (snd pt) Opaque) NewAlpha points))"

text \<open>
  \<^verbatim>\<open>func (s *SparsePointServer) Next() (z, x, y int, t Tile, err error)\<close>. The results are
  named, so \<^verbatim>\<open>z\<close>, \<^verbatim>\<open>x\<close>, \<^verbatim>\<open>y\<close> are 0 where \<^verbatim>\<open>t, err = s.Get(z, x, y)\<close> reads them. The
  five results are returned next to the server with its advanced index; a tile is \<open>None\<close>
  for nil.
\<close>

definition Next ::
  "SparsePointServer \<Rightarrow> (int \<times> int \<times> int \<times> image option \<times> error option) \<times> SparsePointServer" where
  "Next s =
     (if sp_p s \<ge> int (length (sp_keys s)) then ((0, 0, 0, None, Some EOF), s)
      else if sp_p s < 0 then ((0, 0, 0, None, Some IndexPanic), s)
      else
        (let key = sp_keys s ! nat (sp_p s);
             s' = s\<lparr>sp_p := sp_p s + 1\<rparr>
         in case SparsePointServer_Get s' 0 0 0 of
              Inl err \<Rightarrow> ((sp_z s', fst key, snd key, None, Some err), s')
            | Inr t \<Rightarrow> ((sp_z s', fst key, snd key, Some t, None), s')))"

section \<open>Export of a map region (orux/orux.go)\<close>

record Map =
  TopLeft :: LatLon
  BottomRight :: LatLon
  ZoomLevels :: "int list"

text \<open>\<^verbatim>\<open>var tileLimit = int64(40)\<close>\<close>

definition tileLimit :: int where
  "tileLimit = 40"

text \<open>
  The loop of \<^verbatim>\<open>Map.Count\<close> over the zoom levels, with the running \<^verbatim>\<open>sum\<close> as \<open>acc\<close> and
  the corners \<^verbatim>\<open>tl\<close> and \<^verbatim>\<open>br\<close> as \<open>topl\<close> and \<open>botr\<close>. The sum is an \<^verbatim>\<open>int64\<close>; each summand
  is below \<open>2^50\<close>, and overflow is not modelled.
\<close>

fun Count_loop :: "Map \<Rightarrow> int list \<Rightarrow> int \<Rightarrow> error + int" where
  "Count_loop mp [] acc = Inr acc"
| "Count_loop mp (z # zs) acc =
     (case LatLon_XY (TopLeft mp) z of
        (xy, Some err) \<Rightarrow> Inl err
      | (topl, None) \<Rightarrow>
          (case LatLon_XY (BottomRight mp) z of
             (xy, Some err) \<Rightarrow> Inl err
           | (botr, None) \<Rightarrow>
               if X botr < X topl \<or> Y botr < Y topl then Inl WrongCorners
               else Count_loop mp zs (acc + (X botr - X topl) * (Y botr - Y topl))))"

definition Count :: "Map \<Rightarrow> error + int" where
  "Count mp = Count_loop mp (ZoomLevels mp) 0"

text \<open>
  The tiles that \<^verbatim>\<open>sqlitePipe\<close> asks the tile server for, in order: for every zoom level,
  \<^verbatim>\<open>for x := tl.X; x <= br.X; x++ { for y := tl.Y; y <= br.Y; y++ { ts.Get(z, x, y) } }\<close>,
  the errors of the two conversions being dropped.
\<close>

definition sqlitePipe_requests :: "Map \<Rightarrow> (int \<times> int \<times> int) list" where
  "sqlitePipe_requests mp =
     concat (map
       (\<lambda>z. let topl = fst (LatLon_XY (TopLeft mp) z);
                 botr = fst (LatLon_XY (BottomRight mp) z)
             in concat (map (\<lambda>x. map (\<lambda>y. (z, x, y)) [Y topl..Y botr]) [X topl..X botr]))
       (ZoomLevels mp))"

text \<open>
  \<^verbatim>\<open>expandTileCorners\<close>: the corners of the region's outer tiles and the numbers \<^verbatim>\<open>nx\<close>,
  \<^verbatim>\<open>ny\<close> of tiles in each direction, which \<^verbatim>\<open>WriteXML\<close> writes to the index.
\<close>

definition expandTileCorners :: "Map \<Rightarrow> int \<Rightarrow> error + (LatLon \<times> LatLon \<times> int \<times> int)" where
  "expandTileCorners mp zoom =
     (case LatLon_XY (TopLeft mp) zoom of
        (xy, Some err) \<Rightarrow> Inl err
      | (xy1, None) \<Rightarrow>
          (case XY_LatLon (xy1\<lparr>XP := 0, YP := 0\<rparr>) of
             Inl e \<Rightarrow> Inl e
           | Inr topl \<Rightarrow>
               (case LatLon_XY (BottomRight mp) zoom of
                  (xy, Some err) \<Rightarrow> Inl err
                | (xy2, None) \<Rightarrow>
                    (case XY_LatLon (xy2\<lparr>XP := 255, YP := 255\<rparr>) of
                       Inl e \<Rightarrow> Inl e
                     | Inr botr \<Rightarrow> Inr (topl, botr, X xy2 - X xy1 + 1, Y xy2 - Y xy1 + 1)))))"

text \<open>
  \<^verbatim>\<open>os.Mkdir\<close> on the set of existing paths: it fails on a path that exists. Other
  failures of the operating system are not modelled.
\<close>

definition Mkdir :: "string \<Rightarrow> string set \<Rightarrow> error + string set" where
  "Mkdir name paths = (if name \<in> paths then Inl IOError else Inr (insert name paths))"

text \<open>
  \<^verbatim>\<open>Map.Encode\<close> up to the creation of the directory. What follows it (the \<^verbatim>\<open>sqlite3\<close>
  process fed by \<^verbatim>\<open>sqlitePipe\<close>, then \<^verbatim>\<open>WriteXML\<close>) is the parameter \<open>rest\<close>, which
  gets the name and the paths after \<^verbatim>\<open>os.Mkdir\<close>.
\<close>

definition Encode ::
  "(string \<Rightarrow> string set \<Rightarrow> error option \<times> string set) \<Rightarrow> Map \<Rightarrow> string \<Rightarrow> string set
     \<Rightarrow> error option \<times> string set" where
  "Encode rest mp name paths =
     (case Count mp of
        Inl err \<Rightarrow> (Some err, paths)
      | Inr n \<Rightarrow>
          if n > tileLimit then (Some (TooLarge n tileLimit), paths)
          else (case Mkdir name paths of
                  Inl err \<Rightarrow> (Some err, paths)
                | Inr paths' \<Rightarrow> rest name paths'))"

section \<open>LocalServer, HttpServer and CombinedServer (tile/tile.go)\<close>

text \<open>
  \<^verbatim>\<open>type Tile draw.Image\<close>: a tile is a reference to an image that can be drawn on, and
  the same tile can be held by the cache, by a caller and by the variable \<^verbatim>\<open>black\<close>. A
  tile is therefore an address, and the images are in a store, which is part of the state
  of the world next to the local disk, the remote servers and the list of the reads and
  writes that happened.

  A payload (a file, or the body of a response) is an image that \<^verbatim>\<open>png.Decode\<close> accepts, or
  something else. The disk and the remote servers are indexed by the base (directory or
  URL) and the tile address, which stand for the path \<^verbatim>\<open>base/z/x/y.png\<close>. A remote
  server answers with a file or fails (\<^verbatim>\<open>url.Parse\<close>, \<^verbatim>\<open>http.Get\<close> or a status that is
  not OK). \<open>readonly\<close> says where \<^verbatim>\<open>os.MkdirAll\<close>, \<^verbatim>\<open>os.Create\<close> or \<^verbatim>\<open>png.Encode\<close>
  fail; what a failed write leaves on the disk is not modelled. \<^verbatim>\<open>log.Print\<close> is left out.
\<close>

type_synonym tile = nat

datatype payload = NotPng | Png image

datatype event = DiskRead string key | DiskWrite string key | HttpRequest string key

record world =
  store :: "tile \<Rightarrow> image"
  fresh :: tile
  disk :: "string \<times> key \<Rightarrow> payload option"
  readonly :: "string \<times> key \<Rightarrow> bool"
  remote :: "string \<times> key \<Rightarrow> payload option"
  trace :: "event list"

text \<open>\<^verbatim>\<open>var black Tile\<close>, which \<^verbatim>\<open>init\<close> sets to an image filled with \<^verbatim>\<open>color.Black\<close>.\<close>

definition black :: tile where
  "black = 0"

definition decodePngTile :: "world \<Rightarrow> payload \<Rightarrow> (error + tile) \<times> world" where
  "decodePngTile w f =
     (case f of
        NotPng \<Rightarrow> (Inl DecodeError, w)
      | Png img \<Rightarrow>
          if Dx img \<noteq> 256 \<or> Dy img \<noteq> 256 then (Inl DecodeError, w)
          else (Inr (fresh w), w\<lparr>store := (store w)(fresh w := img), fresh := Suc (fresh w)\<rparr>))"

definition LocalServer_Get ::
  "string \<Rightarrow> world \<Rightarrow> int \<Rightarrow> int \<Rightarrow> int \<Rightarrow> (error + tile) \<times> world" where
  "LocalServer_Get l w z x0 y0 =
     (case normalizeTile z x0 y0 of
        Inl e \<Rightarrow> (Inl e, w)
      | Inr (x, y) \<Rightarrow>
          (let w1 = w\<lparr>trace := trace w @ [DiskRead l (z, x, y)]\<rparr>
           in case disk w (l, (z, x, y)) of
                None \<Rightarrow> (Inl IOError, w1)
              | Some f \<Rightarrow> decodePngTile w1 f))"

definition LocalServer_Add ::
  "string \<Rightarrow> world \<Rightarrow> int \<Rightarrow> int \<Rightarrow> int \<Rightarrow> tile \<Rightarrow> error option \<times> world" where
  "LocalServer_Add l w z x0 y0 t =
     (case normalizeTile z x0 y0 of
        Inl e \<Rightarrow> (Some e, w)
      | Inr (x, y) \<Rightarrow>
          if l = [] then (Some PathUnset, w)
          else if readonly w (l, (z, x, y)) then (Some IOError, w)
          else (None, w\<lparr>disk := (disk w)((l, (z, x, y)) \<mapsto> Png (store w t)),
                         trace := trace w @ [DiskWrite l (z, x, y)]\<rparr>))"

definition HttpServer_Get ::
  "string \<Rightarrow> world \<Rightarrow> int \<Rightarrow> int \<Rightarrow> int \<Rightarrow> (error + tile) \<times> world" where
  "HttpServer_Get s w z x0 y0 =
     (case normalizeTile z x0 y0 of
        Inl e \<Rightarrow> (Inl e, w)
      | Inr (x, y) \<Rightarrow>
          (let w1 = w\<lparr>trace := trace w @ [HttpRequest s (z, x, y)]\<rparr>
           in case remote w (s, (z, x, y)) of
                None \<Rightarrow> (Inl IOError, w1)
              | Some f \<Rightarrow>
                  (case decodePngTile w1 f of
                     (Inl e, w2) \<Rightarrow> (Inl DecodeError, w2)
                   | (Inr t, w2) \<Rightarrow> (Inr t, w2))))"

text \<open>
  \<^verbatim>\<open>Points\<close> and \<^verbatim>\<open>Cache\<close> are pointers: \<open>None\<close> is nil. The cache is changed through
  its pointer, so the functions return the server with the cache as it is afterwards.
\<close>

record CombinedServer =
  Points :: "PointServer option"
  Cache :: "tile CacheServer option"
  Local :: string
  Http :: string

text \<open>
  \<^verbatim>\<open>if c.Cache != nil && c.Cache.m != nil { c.Cache.Add(z, x, y, t) }\<close>, which stands twice
  in \<^verbatim>\<open>get\<close>.
\<close>

definition cache_add :: "CombinedServer \<Rightarrow> int \<Rightarrow> int \<Rightarrow> int \<Rightarrow> tile \<Rightarrow> error + CombinedServer" where
  "cache_add c z x y t =
     (case Cache c of
        None \<Rightarrow> Inr c
      | Some cs \<Rightarrow>
          if cache_m cs = None then Inr c
          else (case CacheServer_Add cs z x y t of
                  Inl e \<Rightarrow> Inl e
                | Inr cs' \<Rightarrow> Inr (c\<lparr>Cache := Some cs'\<rparr>)))"

text \<open>
  \<^verbatim>\<open>CombinedServer.get\<close> in three parts, each one \<^verbatim>\<open>if\<close> block of the source followed by
  the rest of the function: \<open>get_http\<close> is the third block and \<^verbatim>\<open>return black, nil\<close>,
  \<open>get_local\<close> the second block and \<open>get_http\<close>, \<open>get\<close> the call of \<^verbatim>\<open>normalizeTile\<close>, the
  first block and \<open>get_local\<close>. The layers ignore errors and pass panics on.
\<close>

definition get_http ::
  "CombinedServer \<Rightarrow> world \<Rightarrow> int \<Rightarrow> int \<Rightarrow> int \<Rightarrow> (error + tile) \<times> CombinedServer \<times> world" where
  "get_http c w z x y =
     (if Http c \<noteq> [] then
        (case HttpServer_Get (Http c) w z x y of
           (Inr t, w1) \<Rightarrow>
             (case (if Local c \<noteq> [] then LocalServer_Add (Local c) w1 z x y t else (None, w1)) of
                (lerr, w2) \<Rightarrow>
                  (let ret = (case cache_add c z x y t of
                                   Inl e \<Rightarrow> (Inl e, c, w2)
                                 | Inr c' \<Rightarrow> (Inr t, c', w2))
                   in case lerr of
                        None \<Rightarrow> ret
                      | Some e \<Rightarrow> if is_panic e then (Inl e, c, w2) else ret))
         | (Inl e, w1) \<Rightarrow> if is_panic e then (Inl e, c, w1) else (Inr black, c, w1))
      else (Inr black, c, w))"

definition get_local ::
  "CombinedServer \<Rightarrow> world \<Rightarrow> int \<Rightarrow> int \<Rightarrow> int \<Rightarrow> (error + tile) \<times> CombinedServer \<times> world" where
  "get_local c w z x y =
     (if Local c \<noteq> [] then
        (case LocalServer_Get (Local c) w z x y of
           (Inr t, w1) \<Rightarrow>
             (case cache_add c z x y t of
                Inl e \<Rightarrow> (Inl e, c, w1)
              | Inr c' \<Rightarrow> (Inr t, c', w1))
         | (Inl e, w1) \<Rightarrow> if is_panic e then (Inl e, c, w1) else get_http c w1 z x y)
      else get_http c w z x y)"

definition get ::
  "CombinedServer \<Rightarrow> world \<Rightarrow> int \<Rightarrow> int \<Rightarrow> int \<Rightarrow> (error + tile) \<times> CombinedServer \<times> world" where
  "get c w z x0 y0 =
     (case normalizeTile z x0 y0 of
        Inl e \<Rightarrow> (Inl e, c, w)
      | Inr (x, y) \<Rightarrow>
          (case Cache c of
             None \<Rightarrow> get_local c w z x y
           | Some cs \<Rightarrow>
               if cache_m cs = None then get_local c w z x y
               else (case CacheServer_Get cs z x y of
                       Inr t \<Rightarrow> (Inr t, c, w)
                     | Inl e \<Rightarrow> if is_panic e then (Inl e, c, w) else get_local c w z x y)))"

text \<open>
  \<^verbatim>\<open>CombinedServer.Get\<close>: the tile of \<^verbatim>\<open>get\<close>, on which the points of \<^verbatim>\<open>c.Points\<close> that
  convert to the tile \<^verbatim>\<open>(x, y)\<close> as the caller gave it are set, in place.
\<close>

definition CombinedServer_Get ::
  "CombinedServer \<Rightarrow> world \<Rightarrow> int \<Rightarrow> int \<Rightarrow> int \<Rightarrow> (error + tile) \<times> CombinedServer \<times> world" where
  "CombinedServer_Get c w z x y =
     (case get c w z x y of
        (Inl err, c1, w1) \<Rightarrow> (Inl err, c1, w1)
      | (Inr t, c1, w1) \<Rightarrow>
          (case Points c of
             None \<Rightarrow> (Inr t, c1, w1)
           | Some ps \<Rightarrow>
               (Inr t, c1,
                w1\<lparr>store := (store w1)(t :=
                  foldl (\<lambda>im coords.
                           case LatLon_XY coords z of
                             (xy, None) \<Rightarrow>
                               if X xy = x \<and> Y xy = y
                               then image_Set im (XP xy) (YP xy) (Color ps) else im
                           | (xy, Some err) \<Rightarrow> im)
                    (store w1 t) (PointServer.coords ps))\<rparr>)))"

text \<open>
  Used in the statements about the layers: a file that \<^verbatim>\<open>decodePngTile\<close> accepts, the
  image in it, and the cache after \<^verbatim>\<open>Add\<close> of a tile under a map key.
\<close>

definition decodable :: "payload option \<Rightarrow> bool" where
  "decodable fo = (case fo of Some (Png img) \<Rightarrow> Dx img = 256 \<and> Dy img = 256 | _ \<Rightarrow> False)"

definition image_of :: "payload option \<Rightarrow> image" where
  "image_of fo = (case fo of Some (Png img) \<Rightarrow> img | _ \<Rightarrow> black_image)"

definition has_room :: "'t CacheServer \<Rightarrow> bool" where
  "has_room cs =
     (case cache_m cs of
        None \<Rightarrow> False
      | Some al \<Rightarrow> maxTiles cs = 0 \<or> int (length al) < maxTiles cs)"

definition cached :: "'t CacheServer option \<Rightarrow> key \<Rightarrow> 't option" where
  "cached co k =
     (case co of
        None \<Rightarrow> None
      | Some cs \<Rightarrow> (case cache_m cs of None \<Rightarrow> None | Some al \<Rightarrow> map_of al k))"

definition admit :: "'t CacheServer \<Rightarrow> key \<Rightarrow> 't \<Rightarrow> 't CacheServer" where
  "admit cs k t =
     (case cache_m cs of
        None \<Rightarrow> cs
      | Some al \<Rightarrow>
          if maxTiles cs = 0 \<or> int (length al) < maxTiles cs
          then cs\<lparr>cache_m := Some (AList.update k t al)\<rparr> else cs)"

text \<open>Two calls of \<^verbatim>\<open>Get\<close> for the same coordinates, one after the other.\<close>

definition Get_twice ::
  "CombinedServer \<Rightarrow> world \<Rightarrow> int \<Rightarrow> int \<Rightarrow> int
     \<Rightarrow> ((error + tile) \<times> CombinedServer \<times> world) \<times> ((error + tile) \<times> CombinedServer \<times> world)" where
  "Get_twice c w z x y =
     (case CombinedServer_Get c w z x y of
        (r1, c1, w1) \<Rightarrow> ((r1, c1, w1), CombinedServer_Get c1 w1 z x y))"

text \<open>
  Inputs of the examples: a world whose disk holds the one tile \<open>tiles/1/0/0.png\<close> and
  whose only image in the store is the black tile; a server with a local directory and a
  cache of capacity 1 that is full, and the same server with an empty cache of capacity 10.
\<close>

definition one_tile_world :: world where
  "one_tile_world =
     \<lparr>store = (\<lambda>_. black_image), fresh = 1,
      disk = (\<lambda>_. None)((''tiles'', (1, 0, 0)) \<mapsto> Png black_image),
      readonly = (\<lambda>_. False), remote = (\<lambda>_. None), trace = []\<rparr>"

definition full_cache_server :: CombinedServer where
  "full_cache_server =
     \<lparr>Points = None, Cache = Some \<lparr>maxTiles = 1, cache_m = Some [((1, 1, 1), black)]\<rparr>,
      Local = ''tiles'', Http = []\<rparr>"

definition empty_cache_server :: CombinedServer where
  "empty_cache_server =
     \<lparr>Points = None, Cache = Some (NewCacheServer 10), Local = ''tiles'', Http = []\<rparr>"

text \<open>
  Two calls of \<^verbatim>\<open>Get\<close>, one after the other, for two tile addresses; the result is that of
  the second call.
\<close>

definition Get_then ::
  "CombinedServer \<Rightarrow> world \<Rightarrow> key \<Rightarrow> key \<Rightarrow> (error + tile) \<times> CombinedServer \<times> world" where
  "Get_then c w k1 k2 =
     (case k1 of (z1, x1, y1) \<Rightarrow>
        (case k2 of (z2, x2, y2) \<Rightarrow>
           (case CombinedServer_Get c w z1 x1 y1 of
              (r1, c1, w1) \<Rightarrow> CombinedServer_Get c1 w1 z2 x2 y2)))"

text \<open>
  The world after \<^verbatim>\<open>init\<close>, with an empty disk and no remote server: the only image is the
  one of \<^verbatim>\<open>black\<close>, and it is filled with \<^verbatim>\<open>color.Black\<close>. A server that has no cache, no
  directory and no URL, and draws the one point \<open>(0, 0)\<close> in red
  (\<^verbatim>\<open>color.RGBA{255, 0, 0, 255}\<close>).
\<close>

definition init_world :: world where
  "init_world =
     \<lparr>store = (\<lambda>_. black_image), fresh = 1, disk = (\<lambda>_. None),
      readonly = (\<lambda>_. False), remote = (\<lambda>_. None), trace = []\<rparr>"

definition points_only_server :: CombinedServer where
  "points_only_server =
     \<lparr>Points = Some \<lparr>Color = RGBA 255 0 0 255, File = ''points'', coords = [\<lparr>Lat = 0, Lon = 0\<rparr>]\<rparr>,
      Cache = None, Local = [], Http = []\<rparr>"

section \<open>Index wrap-around\<close>

lemma NumTiles_pos: "0 \<le> z \<Longrightarrow> z \<le> 24 \<Longrightarrow> 0 < NumTiles z"
  by (simp add: NumTiles_def)

lemma wrap_smod:
  fixes x m :: int
  assumes "0 < m"
  shows "(if x smod m < 0 then x smod m + m else x smod m) = x mod m"
proof (cases "sgn x \<noteq> sgn m \<and> \<not> m dvd x")
  case True
  then have "x smod m = x mod m - m"
    by (simp add: signed_modulo_int_eq_modulo_int)
  moreover have "x mod m < m"
    using assms by simp
  ultimately show ?thesis by simp
next
  case False
  then have "x smod m = x mod m"
    by (auto simp add: signed_modulo_int_eq_modulo_int)
  moreover have "0 \<le> x mod m"
    using assms by simp
  ultimately show ?thesis by simp
qed

lemma normalizeTile_mod:
  assumes "0 \<le> z" "z \<le> 24"
  shows "normalizeTile z x y = Inr (x mod 2 ^ nat z, y mod 2 ^ nat z)"
proof -
  have m: "NumTiles z = 2 ^ nat z" "(0::int) < 2 ^ nat z"
    using assms by (simp_all add: NumTiles_def)
  show ?thesis
    using assms wrap_smod [OF m(2), of x] wrap_smod [OF m(2), of y]
    by (simp add: normalizeTile_def checkZoom_def m(1) Let_def)
qed



section \<open>The cache: admission bound and the disabled cache\<close>


lemma Get_valid:
  "0 \<le> z \<Longrightarrow> z \<le> 24 \<Longrightarrow>
   CacheServer_Get c z x y =
     (case cache_m c of None \<Rightarrow> Inl NotCached
      | Some al \<Rightarrow> (case map_of al (wrapped (z, x, y)) of None \<Rightarrow> Inl NotCached | Some t \<Rightarrow> Inr t))"
  by (simp add: CacheServer_Get_def wrapped_def normalizeTile_mod split: option.splits)

lemma Add_valid:
  "0 \<le> z \<Longrightarrow> z \<le> 24 \<Longrightarrow>
   CacheServer_Add c z x y t =
     (case cache_m c of None \<Rightarrow> Inr c
      | Some al \<Rightarrow> if maxTiles c = 0 \<or> int (length al) < maxTiles c
          then Inr (c\<lparr>cache_m := Some (AList.update (wrapped (z, x, y)) t al)\<rparr>) else Inr c)"
  by (simp add: CacheServer_Add_def wrapped_def normalizeTile_mod split: option.splits)












lemma add_all_zero:
  fixes kts :: "(key \<times> 't) list"
  assumes "\<forall>((z, x, y), t) \<in> set kts. 0 \<le> z \<and> z \<le> 24"
  shows "add_all (zero_CacheServer :: 't CacheServer) kts = Inr zero_CacheServer"
  using assms
proof (induction kts)
  case Nil
  then show ?case by simp
next
  case (Cons kt kts)
  obtain z x y t where kt: "kt = ((z, x, y), t)" by (cases kt) auto
  have zr: "0 \<le> z" "z \<le> 24" using Cons.prems kt by auto
  have "CacheServer_Add (zero_CacheServer :: 't CacheServer) z x y t = Inr zero_CacheServer"
    by (simp add: Add_valid [OF zr] zero_CacheServer_def)
  then show ?case using Cons kt by simp
qed

text \<open>
  C10. On the zero value of \<open>CacheServer\<close> (the map is nil), for every zoom level in
  \<open>[0, 24]\<close> and all \<open>x\<close>, \<open>y\<close>: \<open>Get\<close> returns the not-cached error and does not panic,
  \<open>Add\<close> returns the cache unchanged, and so does every sequence of \<open>Add\<close> calls.
\<close>

theorem zero_CacheServer_disabled:
  fixes kts :: "(key \<times> 't) list"
  assumes "0 \<le> z" "z \<le> 24"
    and "\<forall>((z, x, y), t) \<in> set kts. 0 \<le> z \<and> z \<le> 24"
  shows "CacheServer_Get (zero_CacheServer :: 't CacheServer) z x y = Inl NotCached
       \<and> CacheServer_Add (zero_CacheServer :: 't CacheServer) z x y t = Inr zero_CacheServer
       \<and> add_all (zero_CacheServer :: 't CacheServer) kts = Inr zero_CacheServer"
  using assms(1,2) add_all_zero [OF assms(3)]
  by (simp add: Get_valid Add_valid zero_CacheServer_def)

theorem zero_CacheServer_disabled_witness:
  "CacheServer_Get (zero_CacheServer :: nat CacheServer) 3 9 (- 1) = Inl NotCached
   \<and> CacheServer_Add (zero_CacheServer :: nat CacheServer) 3 9 (- 1) 7 = Inr zero_CacheServer
   \<and> add_all (zero_CacheServer :: nat CacheServer) [((3, 9, - 1), 7), ((0, 0, 0), 8)]
       = Inr zero_CacheServer"
proof -
  have a: "(0::int) \<le> 3" and b: "(3::int) \<le> 24"
    by simp_all
  have h: "\<forall>((z, x, y), t) \<in> set [((3, 9, - 1), 7 :: nat), ((0 :: int, 0 :: int, 0 :: int), 8)].
          0 \<le> z \<and> z \<le> 24"
    by simp
  show ?thesis
    by (rule zero_CacheServer_disabled [OF a b h])
qed

section \<open>Projection: errors of the conversion to tile addresses\<close>

lemma two_valid: "0 \<le> z \<Longrightarrow> z \<le> 24 \<Longrightarrow> two z = Inr (2 ^ nat z)"
  by (simp add: two_def)

lemma sinh_form_neg:
  fixes n :: real
  assumes "n < 0"
  shows "180 / pi * arctan (0.5 * (exp n - exp (- n))) < 0"
proof -
  define a where "a = 0.5 * (exp n - exp (- n))"
  have "exp n < exp (- n)" using assms by simp
  then have "a < 0" by (simp add: a_def)
  then have "arctan a < 0"
    by (simp only: arctan_less_zero_iff)
  moreover have "0 < 180 / pi" by simp
  ultimately have "180 / pi * arctan a < 0" by (simp only: mult_pos_neg)
  then show ?thesis by (simp only: a_def)
qed

lemma MinLatitude_eq:
  assumes "0 \<le> z" "z \<le> 24"
  shows "MinLatitude z =
    Inr (180 / pi * arctan (0.5 *
      (exp (pi - 2 * pi * (real_of_int (2 ^ nat z - 1) + real_of_int 255 / 256) / 2 ^ nat z)
       - exp (- (pi - 2 * pi * (real_of_int (2 ^ nat z - 1) + real_of_int 255 / 256) / 2 ^ nat z)))))"
  using assms by (simp add: MinLatitude_def checkZoom_def XY_LatLon_def two_valid Let_def)

lemma MinLatitude_in_range:
  assumes "0 \<le> z" "z \<le> 24"
  shows "\<exists>minlat. MinLatitude z = Inr minlat \<and> minlat < 0"
proof -
  define t :: real where "t = 2 ^ nat z"
  define y :: real where "y = real_of_int (2 ^ nat z - 1) + real_of_int 255 / 256"
  define n :: real where "n = pi - 2 * pi * y / t"
  have t: "1 \<le> t" by (simp add: t_def)
  have y: "y = t - 1 / 256" by (simp add: y_def t_def)
  have "t / 2 < t - 1 / 256" using t by simp
  then have "t / 2 < y" by (simp only: y)
  then have "1 / 2 < y / t" using t by (simp add: field_simps)
  then have "1 < 2 * y / t" by (simp add: mult.commute)
  then have "pi * 1 < pi * (2 * y / t)"
    by (intro mult_strict_left_mono) simp_all
  then have n: "n < 0" by (simp add: n_def field_simps)
  have "MinLatitude z = Inr (180 / pi * arctan (0.5 * (exp n - exp (- n))))"
    unfolding n_def y_def t_def by (rule MinLatitude_eq [OF assms])
  then show ?thesis using sinh_form_neg [OF n] by blast
qed

lemma MaxLatitude_pos: "0 < MaxLatitude"
  by (simp add: MaxLatitude_def)


lemma LatLon_XY_zoom_error:
  "z < 0 \<or> 24 < z \<Longrightarrow> LatLon_XY p z = (XY_zero, Some ZoomRangeError)"
  by (auto simp add: LatLon_XY_def)

lemma LatLon_XY_lat_error:
  assumes "0 \<le> z" "z \<le> 24" "MinLatitude z = Inr minlat"
    and "Lat p < minlat \<or> MaxLatitude < Lat p"
  shows "LatLon_XY p z = (XY_zero, Some (LatitudeError (Lat p)))"
  using assms by (auto simp add: LatLon_XY_def)

lemma LatLon_XY_ok:
  assumes "0 \<le> z" "z \<le> 24" "MinLatitude z = Inr minlat"
    and "minlat \<le> Lat p" "Lat p \<le> MaxLatitude"
  shows "snd (LatLon_XY p z) = None \<and> Z (fst (LatLon_XY p z)) = z
       \<and> X (fst (LatLon_XY p z)) = float_to_int ((Lon p + 180) / 360 * 2 ^ nat z)
       \<and> Y (fst (LatLon_XY p z)) = float_to_int
            ((1 - ln (tan (Radians (Lat p)) + 1 / cos (Radians (Lat p))) / pi) / 2 * 2 ^ nat z)"
  using assms by (simp add: LatLon_XY_def two_valid Let_def)

text \<open>
  C5. For every point \<open>p\<close> and every integer \<open>z\<close>, \<open>LatLon.XY\<close> returns the zoom-range
  error exactly when \<open>z\<close> is outside \<open>[0, 24]\<close>; for \<open>z\<close> in the range, \<open>MinLatitude z\<close> does
  not panic, the latitude error is returned exactly when the latitude of \<open>p\<close> is outside
  \<open>[MinLatitude z, MaxLatitude]\<close>, and otherwise a tile address at zoom \<open>z\<close> is returned with
  no error.
\<close>

theorem LatLon_XY_errors:
  "(snd (LatLon_XY p z) = Some ZoomRangeError \<longleftrightarrow> z < 0 \<or> 24 < z)
   \<and> (0 \<le> z \<and> z \<le> 24 \<longrightarrow>
        (\<exists>minlat. MinLatitude z = Inr minlat
           \<and> (snd (LatLon_XY p z) = Some (LatitudeError (Lat p))
                \<longleftrightarrow> Lat p < minlat \<or> MaxLatitude < Lat p)
           \<and> (minlat \<le> Lat p \<and> Lat p \<le> MaxLatitude \<longrightarrow>
                snd (LatLon_XY p z) = None \<and> Z (fst (LatLon_XY p z)) = z)))"
proof (cases "z < 0 \<or> 24 < z")
  case True
  then show ?thesis
    using LatLon_XY_zoom_error [OF True, of p] by auto
next
  case False
  then have zr: "0 \<le> z" "z \<le> 24" by simp_all
  obtain minlat where ml: "MinLatitude z = Inr minlat"
    using MinLatitude_in_range [OF zr] by blast
  show ?thesis
  proof (cases "Lat p < minlat \<or> MaxLatitude < Lat p")
    case True
    show ?thesis
      using zr ml True LatLon_XY_lat_error [OF zr ml True] by auto
  next
    case False
    then have ok: "minlat \<le> Lat p" "Lat p \<le> MaxLatitude" by simp_all
    show ?thesis
      using zr ml False LatLon_XY_ok [OF zr ml ok] by auto
  qed
qed

theorem LatLon_XY_errors_witness:
  "snd (LatLon_XY \<lparr>Lat = 90, Lon = 0\<rparr> 3) = Some (LatitudeError 90)
   \<and> snd (LatLon_XY \<lparr>Lat = 0, Lon = 0\<rparr> 3) = None
   \<and> snd (LatLon_XY \<lparr>Lat = 0, Lon = 0\<rparr> 25) = Some ZoomRangeError"
proof -
  have zr: "(0::int) \<le> 3 \<and> (3::int) \<le> 24" by simp
  obtain minlat where ml: "MinLatitude 3 = Inr minlat" "minlat < 0"
    using MinLatitude_in_range [of 3] by auto
  have a: "snd (LatLon_XY \<lparr>Lat = 90, Lon = 0\<rparr> 3) = Some (LatitudeError 90)"
    using LatLon_XY_errors [of "\<lparr>Lat = 90, Lon = 0\<rparr>" 3] zr
    by (auto simp add: MaxLatitude_def)
  have b: "snd (LatLon_XY \<lparr>Lat = 0, Lon = 0\<rparr> 3) = None"
    using LatLon_XY_errors [of "\<lparr>Lat = 0, Lon = 0\<rparr>" 3] zr ml
    by (auto simp add: MaxLatitude_def)
  have c: "snd (LatLon_XY \<lparr>Lat = 0, Lon = 0\<rparr> 25) = Some ZoomRangeError"
    using LatLon_XY_errors [of "\<lparr>Lat = 0, Lon = 0\<rparr>" 25] by simp
  show ?thesis using a b c by simp
qed


lemma LatLon_XY_equator:
  assumes "0 \<le> z" "z \<le> 24"
  shows "LatLon_XY \<lparr>Lat = 0, Lon = l\<rparr> z =
    (\<lparr>X = float_to_int ((l + 180) / 360 * 2 ^ nat z),
      Y = float_to_int (2 ^ nat z / 2),
      XP = float_to_int (256 * ((l + 180) / 360 * 2 ^ nat z
             - real_of_int (float_to_int ((l + 180) / 360 * 2 ^ nat z)))),
      YP = float_to_int (256 * (2 ^ nat z / 2 - real_of_int (float_to_int (2 ^ nat z / 2)))),
      Z = z\<rparr>, None)"
proof -
  obtain minlat where ml: "MinLatitude z = Inr minlat" "minlat < 0"
    using MinLatitude_in_range [OF assms] by blast
  show ?thesis
    using assms ml MaxLatitude_pos
    by (simp add: LatLon_XY_def two_valid Let_def Radians_def)
qed

lemma XY_origin_zoom1:
  "LatLon_XY \<lparr>Lat = 0, Lon = 0\<rparr> 1 = (\<lparr>X = 1, Y = 1, XP = 0, YP = 0, Z = 1\<rparr>, None)"
  by (simp add: LatLon_XY_equator float_to_int_def)

lemma XY_pole: "LatLon_XY \<lparr>Lat = 90, Lon = 0\<rparr> 3 = (XY_zero, Some (LatitudeError 90))"
proof -
  obtain minlat where ml: "MinLatitude 3 = Inr minlat"
    using MinLatitude_in_range [of 3] by auto
  have "Lat \<lparr>Lat = 90, Lon = 0\<rparr> < minlat \<or> MaxLatitude < Lat \<lparr>Lat = 90, Lon = 0\<rparr>"
    by (simp add: MaxLatitude_def)
  then show ?thesis
    using LatLon_XY_lat_error [of 3 minlat "\<lparr>Lat = 90, Lon = 0\<rparr>"] ml by simp
qed

text \<open>
  C8. \<open>PointServer.Get\<close> at two inputs. The point \<open>(0, 0)\<close> converts at zoom 1 to the tile
  \<open>(1, 1)\<close>, pixel \<open>(0, 0)\<close>, with no error, and the tile \<open>(1, 1)\<close> that \<open>Get\<close> returns has
  nothing drawn. The point at latitude 90 does not convert, and the tile \<open>(0, 0)\<close> that \<open>Get\<close>
  returns for it has the pixel \<open>(0, 0)\<close> drawn.
\<close>

theorem PointServer_Get_inverted_test:
  "LatLon_XY \<lparr>Lat = 0, Lon = 0\<rparr> 1 = (\<lparr>X = 1, Y = 1, XP = 0, YP = 0, Z = 1\<rparr>, None)
   \<and> PointServer_Get \<lparr>Color = Opaque, File = [], coords = [\<lparr>Lat = 0, Lon = 0\<rparr>]\<rparr> 1 1 1
       = Inr NewAlpha
   \<and> snd (LatLon_XY \<lparr>Lat = 90, Lon = 0\<rparr> 3) = Some (LatitudeError 90)
   \<and> PointServer_Get \<lparr>Color = Opaque, File = [], coords = [\<lparr>Lat = 90, Lon = 0\<rparr>]\<rparr> 3 0 0
       = Inr (image_Set NewAlpha 0 0 Opaque)
   \<and> pix (image_Set NewAlpha 0 0 Opaque) (0, 0) = Opaque
   \<and> pix NewAlpha (0, 0) = Transparent"
  by (simp add: PointServer_Get_def XY_origin_zoom1 XY_pole XY_zero_def image_Set_def NewAlpha_def)

text \<open>
  C7. \<open>SparsePointServer.Next\<close> at zoom level 1 with the one point \<open>(0, 0)\<close>: the server is
  built without error and holds the tile \<open>(1, 1)\<close>; the first \<open>Next\<close> returns that tile
  index with a nil tile and the error of \<open>Get\<close> for zoom level 0, while \<open>Get\<close> at
  \<open>(1, 1, 1)\<close> returns the tile with the point drawn. The lemma after it shows the same error
  for every server whose zoom level is not 0.
\<close>

theorem SparsePointServer_Next_zero_args:
  "NewSparsePointServer 1 [\<lparr>Lat = 0, Lon = 0\<rparr>]
     = Inr \<lparr>sp_z = 1, sp_points = [((1, 1), [(0, 0)])], sp_keys = [(1, 1)], sp_p = 0\<rparr>
   \<and> Next \<lparr>sp_z = 1, sp_points = [((1, 1), [(0, 0)])], sp_keys = [(1, 1)], sp_p = 0\<rparr>
     = ((1, 1, 1, None, Some (WrongZoomLevel 0 1)),
        \<lparr>sp_z = 1, sp_points = [((1, 1), [(0, 0)])], sp_keys = [(1, 1)], sp_p = 1\<rparr>)
   \<and> SparsePointServer_Get
        \<lparr>sp_z = 1, sp_points = [((1, 1), [(0, 0)])], sp_keys = [(1, 1)], sp_p = 1\<rparr> 1 1 1
     = Inr (image_Set NewAlpha 0 0 Opaque)"
  by (simp add: NewSparsePointServer_def XY_origin_zoom1 Next_def SparsePointServer_Get_def Let_def)

lemma Next_fails_above_zoom_0:
  assumes "sp_z s \<noteq> 0" "0 \<le> sp_p s" "sp_p s < int (length (sp_keys s))"
  shows "\<exists>x y s'. Next s = ((sp_z s, x, y, None, Some (WrongZoomLevel 0 (sp_z s))), s')"
  using assms by (simp add: Next_def SparsePointServer_Get_def Let_def)

section \<open>Export: the size guard\<close>

lemma XY_row_left:
  "LatLon_XY \<lparr>Lat = 0, Lon = - 180\<rparr> 7 = (\<lparr>X = 0, Y = 64, XP = 0, YP = 0, Z = 7\<rparr>, None)"
  by (simp add: LatLon_XY_equator float_to_int_def)

lemma XY_row_right:
  "LatLon_XY \<lparr>Lat = 0, Lon = 0\<rparr> 7 = (\<lparr>X = 64, Y = 64, XP = 0, YP = 0, Z = 7\<rparr>, None)"
  by (simp add: LatLon_XY_equator float_to_int_def)

text \<open>
  C1. \<open>Encode\<close> on the region from \<open>(0, -180)\<close> to \<open>(0, 0)\<close> at zoom level 7: the corners
  are the tiles \<open>(0, 64)\<close> and \<open>(64, 64)\<close>, so the region is one row of 65 tiles, which is
  what \<open>sqlitePipe\<close> requests and what \<open>expandTileCorners\<close> reports. \<open>Count\<close> returns 0 for
  it, and \<open>Encode\<close> goes on to create the directory.
\<close>

theorem Count_misses_last_row_and_column:
  "Count \<lparr>TopLeft = \<lparr>Lat = 0, Lon = - 180\<rparr>, BottomRight = \<lparr>Lat = 0, Lon = 0\<rparr>,
          ZoomLevels = [7]\<rparr> = Inr 0
   \<and> length (sqlitePipe_requests \<lparr>TopLeft = \<lparr>Lat = 0, Lon = - 180\<rparr>,
          BottomRight = \<lparr>Lat = 0, Lon = 0\<rparr>, ZoomLevels = [7]\<rparr>) = 65
   \<and> (\<exists>topl botr. expandTileCorners \<lparr>TopLeft = \<lparr>Lat = 0, Lon = - 180\<rparr>,
          BottomRight = \<lparr>Lat = 0, Lon = 0\<rparr>, ZoomLevels = [7]\<rparr> 7 = Inr (topl, botr, 65, 1))
   \<and> Encode rest \<lparr>TopLeft = \<lparr>Lat = 0, Lon = - 180\<rparr>, BottomRight = \<lparr>Lat = 0, Lon = 0\<rparr>,
          ZoomLevels = [7]\<rparr> ''out'' {} = rest ''out'' {''out''}"
  by (simp add: Count_def XY_row_left XY_row_right sqlitePipe_requests_def Let_def
      length_concat comp_def expandTileCorners_def XY_LatLon_def two_valid
      Encode_def tileLimit_def Mkdir_def)

section \<open>The combined server: no error, and the order of the layers\<close>

lemma normalizeTile_idem:
  assumes "0 \<le> z" "z \<le> 24" "normalizeTile z x0 y0 = Inr (x, y)"
  shows "normalizeTile z x y = Inr (x, y)"
  using assms by (auto simp add: normalizeTile_mod)

lemma CacheServer_Get_normal:
  assumes "normalizeTile z x y = Inr (x, y)"
  shows "CacheServer_Get cs z x y =
           (case cached (Some cs) (z, x, y) of None \<Rightarrow> Inl NotCached | Some t \<Rightarrow> Inr t)"
  using assms by (simp add: CacheServer_Get_def cached_def split: option.splits)

lemma CacheServer_Add_normal:
  assumes "normalizeTile z x y = Inr (x, y)"
  shows "CacheServer_Add cs z x y t = Inr (admit cs (z, x, y) t)"
  using assms by (simp add: CacheServer_Add_def admit_def split: option.splits)

lemma cache_add_normal:
  assumes "normalizeTile z x y = Inr (x, y)"
  shows "cache_add c z x y t = Inr (c\<lparr>Cache := map_option (\<lambda>cs. admit cs (z, x, y) t) (Cache c)\<rparr>)"
  using assms
  by (cases "Cache c") (simp_all add: cache_add_def CacheServer_Add_normal admit_def)

lemma LocalServer_Get_normal:
  assumes "normalizeTile z x y = Inr (x, y)"
  shows "LocalServer_Get l w z x y =
    (if decodable (disk w (l, (z, x, y)))
     then (Inr (fresh w),
           w\<lparr>store := (store w)(fresh w := image_of (disk w (l, (z, x, y)))),
             fresh := Suc (fresh w),
             trace := trace w @ [DiskRead l (z, x, y)]\<rparr>)
     else (Inl (if disk w (l, (z, x, y)) = None then IOError else DecodeError),
           w\<lparr>trace := trace w @ [DiskRead l (z, x, y)]\<rparr>))"
  using assms
  by (auto simp add: LocalServer_Get_def decodePngTile_def decodable_def image_of_def Let_def
      split: option.splits payload.splits)

lemma HttpServer_Get_normal:
  assumes "normalizeTile z x y = Inr (x, y)"
  shows "HttpServer_Get s w z x y =
    (if decodable (remote w (s, (z, x, y)))
     then (Inr (fresh w),
           w\<lparr>store := (store w)(fresh w := image_of (remote w (s, (z, x, y)))),
             fresh := Suc (fresh w),
             trace := trace w @ [HttpRequest s (z, x, y)]\<rparr>)
     else (Inl (if remote w (s, (z, x, y)) = None then IOError else DecodeError),
           w\<lparr>trace := trace w @ [HttpRequest s (z, x, y)]\<rparr>))"
  using assms
  by (auto simp add: HttpServer_Get_def decodePngTile_def decodable_def image_of_def Let_def
      split: option.splits payload.splits)

lemma LocalServer_Add_normal:
  assumes "normalizeTile z x y = Inr (x, y)" "l \<noteq> []"
  shows "LocalServer_Add l w z x y t =
    (if readonly w (l, (z, x, y)) then (Some IOError, w)
     else (None, w\<lparr>disk := (disk w)((l, (z, x, y)) \<mapsto> Png (store w t)),
                   trace := trace w @ [DiskWrite l (z, x, y)]\<rparr>))"
  using assms by (simp add: LocalServer_Add_def)


lemma get_http_normal:
  assumes N: "normalizeTile z x y = Inr (x, y)"
  shows "get_http c w z x y =
    (if Http c \<noteq> [] \<and> decodable (remote w (Http c, (z, x, y)))
     then (Inr (fresh w),
           c\<lparr>Cache := map_option (\<lambda>cs. admit cs (z, x, y) (fresh w)) (Cache c)\<rparr>,
           (if Local c \<noteq> [] \<and> \<not> readonly w (Local c, (z, x, y))
            then w\<lparr>store := (store w)(fresh w := image_of (remote w (Http c, (z, x, y)))),
                   fresh := Suc (fresh w),
                   disk := (disk w)((Local c, (z, x, y)) \<mapsto> Png (image_of (remote w (Http c, (z, x, y))))),
                   trace := trace w @ [HttpRequest (Http c) (z, x, y), DiskWrite (Local c) (z, x, y)]\<rparr>
            else w\<lparr>store := (store w)(fresh w := image_of (remote w (Http c, (z, x, y)))),
                   fresh := Suc (fresh w),
                   trace := trace w @ [HttpRequest (Http c) (z, x, y)]\<rparr>))
     else (Inr black, c,
           (if Http c \<noteq> [] then w\<lparr>trace := trace w @ [HttpRequest (Http c) (z, x, y)]\<rparr> else w)))"
  by (simp add: get_http_def HttpServer_Get_normal [OF N] LocalServer_Add_normal [OF N]
      cache_add_normal [OF N] is_panic_def Let_def)

lemma get_local_normal:
  assumes N: "normalizeTile z x y = Inr (x, y)"
  shows "get_local c w z x y =
    (if Local c \<noteq> [] \<and> decodable (disk w (Local c, (z, x, y)))
     then (Inr (fresh w),
           c\<lparr>Cache := map_option (\<lambda>cs. admit cs (z, x, y) (fresh w)) (Cache c)\<rparr>,
           w\<lparr>store := (store w)(fresh w := image_of (disk w (Local c, (z, x, y)))),
             fresh := Suc (fresh w),
             trace := trace w @ [DiskRead (Local c) (z, x, y)]\<rparr>)
     else get_http c
            (if Local c \<noteq> [] then w\<lparr>trace := trace w @ [DiskRead (Local c) (z, x, y)]\<rparr> else w)
            z x y)"
  by (simp add: get_local_def LocalServer_Get_normal [OF N] cache_add_normal [OF N] is_panic_def)

lemma get_normal:
  assumes "normalizeTile z x0 y0 = Inr (x, y)" and N: "normalizeTile z x y = Inr (x, y)"
  shows "get c w z x0 y0 =
    (case cached (Cache c) (z, x, y) of
       Some t \<Rightarrow> (Inr t, c, w)
     | None \<Rightarrow> get_local c w z x y)"
  using assms(1)
  by (simp add: get_def CacheServer_Get_normal [OF N] cached_def is_panic_def
      split: option.splits)


lemma cache_key_normal:
  assumes "0 \<le> z" "z \<le> 24" "cache_key (z, x0, y0) = Inr k"
  obtains x y where "k = (z, x, y)" "normalizeTile z x0 y0 = Inr (x, y)"
    "normalizeTile z x y = Inr (x, y)"
proof -
  have n: "normalizeTile z x0 y0 = Inr (x0 mod 2 ^ nat z, y0 mod 2 ^ nat z)"
    using assms(1,2) by (rule normalizeTile_mod)
  then have "k = (z, x0 mod 2 ^ nat z, y0 mod 2 ^ nat z)"
    using assms(3) by (simp add: cache_key_def)
  moreover have "normalizeTile z (x0 mod 2 ^ nat z) (y0 mod 2 ^ nat z)
                   = Inr (x0 mod 2 ^ nat z, y0 mod 2 ^ nat z)"
    using assms(1,2) n by (rule normalizeTile_idem)
  ultimately show ?thesis using n that by blast
qed

lemma Get_of_get:
  assumes "get c w z x y = (Inr t, c1, w1)"
  shows "\<exists>w'. CombinedServer_Get c w z x y = (Inr t, c1, w')
          \<and> trace w' = trace w1 \<and> disk w' = disk w1 \<and> fresh w' = fresh w1
          \<and> (Points c = None \<longrightarrow> w' = w1)"
  using assms by (simp add: CombinedServer_Get_def split: option.splits)

lemma get_http_ok:
  assumes N: "normalizeTile z x y = Inr (x, y)"
  shows "\<exists>t c1 w1. get_http c w z x y = (Inr t, c1, w1)"
  by (simp add: get_http_normal [OF N])

lemma get_local_ok:
  assumes N: "normalizeTile z x y = Inr (x, y)"
  shows "\<exists>t c1 w1. get_local c w z x y = (Inr t, c1, w1)"
  using get_http_ok [OF N] by (simp add: get_local_normal [OF N])

lemma get_ok:
  assumes "0 \<le> z" "z \<le> 24"
  shows "\<exists>t c1 w1. get c w z x0 y0 = (Inr t, c1, w1)"
proof -
  have n: "normalizeTile z x0 y0 = Inr (x0 mod 2 ^ nat z, y0 mod 2 ^ nat z)"
    using assms by (rule normalizeTile_mod)
  have N: "normalizeTile z (x0 mod 2 ^ nat z) (y0 mod 2 ^ nat z)
             = Inr (x0 mod 2 ^ nat z, y0 mod 2 ^ nat z)"
    using assms n by (rule normalizeTile_idem)
  show ?thesis
    using get_local_ok [OF N, of c w]
    by (simp add: get_normal [OF n N] split: option.splits)
qed

lemma get_all_miss:
  assumes "0 \<le> z" "z \<le> 24" "cache_key (z, x0, y0) = Inr k"
    and "cached (Cache c) k = None"
    and "\<not> (Local c \<noteq> [] \<and> decodable (disk w (Local c, k)))"
    and "\<not> (Http c \<noteq> [] \<and> decodable (remote w (Http c, k)))"
  shows "\<exists>w1. get c w z x0 y0 = (Inr black, c, w1)"
proof -
  obtain x y where k: "k = (z, x, y)" and n: "normalizeTile z x0 y0 = Inr (x, y)"
    and N: "normalizeTile z x y = Inr (x, y)"
    using assms(1-3) by (rule cache_key_normal)
  show ?thesis
    using assms(4-6) unfolding k
    by (auto simp add: get_normal [OF n N] get_local_normal [OF N] get_http_normal [OF N])
qed

text \<open>
  \<open>Get\<close> never fails. For every zoom level in \<open>[0, 24]\<close>, all \<open>x\<close>, \<open>y\<close>, every server and
  every state of the world, \<open>CombinedServer.Get\<close> returns a tile and a nil error, and does
  not panic. When the cache has no entry for the tile (or is nil or disabled), the local
  directory is unset or has no file that decodes to a 256x256 image, and the URL is unset or
  the remote server gives no such image, the tile returned is the variable \<open>black\<close> and the
  cache is unchanged. What the image of \<open>black\<close> shows at that moment is another matter,
  taken up below.
\<close>

theorem CombinedServer_Get_never_fails:
  assumes "0 \<le> z" "z \<le> 24"
  shows "\<exists>t c' w'. CombinedServer_Get c w z x y = (Inr t, c', w')
     \<and> (\<forall>k. cache_key (z, x, y) = Inr k
           \<and> cached (Cache c) k = None
           \<and> \<not> (Local c \<noteq> [] \<and> decodable (disk w (Local c, k)))
           \<and> \<not> (Http c \<noteq> [] \<and> decodable (remote w (Http c, k)))
          \<longrightarrow> t = black \<and> c' = c)"
proof -
  obtain t c1 w1 where g: "get c w z x y = (Inr t, c1, w1)"
    using get_ok [OF assms] by blast
  obtain w' where G: "CombinedServer_Get c w z x y = (Inr t, c1, w')"
    using Get_of_get [OF g] by blast
  have "t = black \<and> c1 = c"
    if "cache_key (z, x, y) = Inr k" "cached (Cache c) k = None"
      "\<not> (Local c \<noteq> [] \<and> decodable (disk w (Local c, k)))"
      "\<not> (Http c \<noteq> [] \<and> decodable (remote w (Http c, k)))" for k
    using get_all_miss [OF assms that] g by auto
  then show ?thesis using G by blast
qed


theorem CombinedServer_Get_never_fails_witness:
  "fst (CombinedServer_Get empty_cache_server one_tile_world 3 (- 1) 9) = Inr black"
proof -
  let ?c = empty_cache_server
  let ?w = one_tile_world
  have zr: "(0::int) \<le> 3" "(3::int) \<le> 24" by simp_all
  obtain t c' w' where G: "CombinedServer_Get ?c ?w 3 (- 1) 9 = (Inr t, c', w')"
    and F: "\<forall>k. cache_key (3, - 1, 9) = Inr k
           \<and> cached (Cache ?c) k = None
           \<and> \<not> (Local ?c \<noteq> [] \<and> decodable (disk ?w (Local ?c, k)))
           \<and> \<not> (Http ?c \<noteq> [] \<and> decodable (remote ?w (Http ?c, k)))
          \<longrightarrow> t = black \<and> c' = ?c"
    using CombinedServer_Get_never_fails [OF zr, of ?c ?w "- 1" 9] by blast
  have "cache_key (3, - 1, 9) = Inr (3, 7, 1)"
    by (simp add: cache_key_def normalizeTile_mod)
  then have "t = black"
    using F [rule_format, of "(3, 7, 1)"]
    by (simp add: cached_def NewCacheServer_def decodable_def empty_cache_server_def
        one_tile_world_def)
  then show ?thesis using G by simp
qed

text \<open>
  C2. The fallback tile is not kept solid black. \<^verbatim>\<open>Get\<close> draws the points of \<^verbatim>\<open>c.Points\<close>
  with \<^verbatim>\<open>t.Set\<close> on the tile that \<^verbatim>\<open>get\<close> returned, and when all layers miss that tile is
  the shared variable \<^verbatim>\<open>black\<close> itself. The server below has no cache, no directory and no
  URL, and the one point \<open>(0, 0)\<close>, which lies in the tile \<open>(1, 1)\<close> of zoom level 1 at the
  pixel \<open>(0, 0)\<close>. After \<^verbatim>\<open>Get(1, 1, 1)\<close>, the call \<^verbatim>\<open>Get(1, 0, 0)\<close> returns \<open>black\<close> with a nil
  error, and the image of \<open>black\<close>, which \<^verbatim>\<open>init\<close> filled with black, has the red pixel of
  the first call at \<open>(0, 0)\<close>: the fallback for the tile \<open>(0, 0)\<close> shows a point of the tile
  \<open>(1, 1)\<close>.
\<close>

theorem black_fallback_keeps_points:
  "fst (Get_then points_only_server init_world (1, 1, 1) (1, 0, 0)) = Inr black
   \<and> store (snd (snd (Get_then points_only_server init_world (1, 1, 1) (1, 0, 0)))) black
       = image_Set black_image 0 0 (RGBA 255 0 0 255)
   \<and> pix (store (snd (snd (Get_then points_only_server init_world (1, 1, 1) (1, 0, 0)))) black) (0, 0)
       = RGBA 255 0 0 255
   \<and> store (snd (snd (Get_then points_only_server init_world (1, 1, 1) (1, 0, 0)))) black
       \<noteq> black_image
   \<and> store init_world black = black_image
   \<and> fst (LatLon_XY \<lparr>Lat = 0, Lon = 0\<rparr> 1) = \<lparr>X = 1, Y = 1, XP = 0, YP = 0, Z = 1\<rparr>"
proof -
  have g1: "CombinedServer_Get points_only_server init_world 1 1 1 =
     (Inr black, points_only_server,
      init_world\<lparr>store := (store init_world)(black := image_Set black_image 0 0 (RGBA 255 0 0 255))\<rparr>)"
    by (simp add: CombinedServer_Get_def get_def get_local_def get_http_def normalizeTile_mod
        points_only_server_def init_world_def XY_origin_zoom1)
  have g2: "Get_then points_only_server init_world (1, 1, 1) (1, 0, 0) =
     (Inr black, points_only_server,
      init_world\<lparr>store := (store init_world)(black := image_Set black_image 0 0 (RGBA 255 0 0 255))\<rparr>)"
    unfolding Get_then_def prod.case g1
    by (simp add: CombinedServer_Get_def get_def get_local_def get_http_def normalizeTile_mod
        points_only_server_def init_world_def XY_origin_zoom1)
  have p: "pix (image_Set black_image 0 0 (RGBA 255 0 0 255)) (0, 0) = RGBA 255 0 0 255"
    by (simp add: image_Set_def black_image_def)
  have "pix black_image (0, 0) = Black" by (simp add: black_image_def)
  then have n: "image_Set black_image 0 0 (RGBA 255 0 0 255) \<noteq> black_image"
    using p by auto
  show ?thesis
    unfolding g2 using p n by (simp add: init_world_def XY_origin_zoom1)
qed

lemma Get_from_get:
  assumes "get c w z x y = (Inr t, c1, w1)" "CombinedServer_Get c w z x y = (r, c', w')"
  shows "r = Inr t \<and> c' = c1 \<and> trace w' = trace w1 \<and> disk w' = disk w1
         \<and> (Points c = None \<longrightarrow> w' = w1)"
  using Get_of_get [OF assms(1)] assms(2) by auto

lemma cached_admit:
  assumes "has_room cs"
  shows "cached (Some (admit cs k t)) k = Some t"
  using assms
  by (auto simp add: has_room_def cached_def admit_def update_conv' split: option.splits)

lemma get_cache_hit:
  assumes "0 \<le> z" "z \<le> 24" "cache_key (z, x0, y0) = Inr k" "cached (Cache c) k = Some t"
  shows "get c w z x0 y0 = (Inr t, c, w)"
proof -
  obtain x y where k: "k = (z, x, y)" and n: "normalizeTile z x0 y0 = Inr (x, y)"
    and N: "normalizeTile z x y = Inr (x, y)"
    using assms(1-3) by (rule cache_key_normal)
  show ?thesis
    using assms(4) unfolding k by (simp add: get_normal [OF n N])
qed

lemma get_local_hit:
  assumes "0 \<le> z" "z \<le> 24" "cache_key (z, x0, y0) = Inr k" "cached (Cache c) k = None"
    and "Local c \<noteq> []" "decodable (disk w (Local c, k))"
  shows "get c w z x0 y0 =
     (Inr (fresh w),
      c\<lparr>Cache := map_option (\<lambda>cs. admit cs k (fresh w)) (Cache c)\<rparr>,
      w\<lparr>store := (store w)(fresh w := image_of (disk w (Local c, k))),
        fresh := Suc (fresh w),
        trace := trace w @ [DiskRead (Local c) k]\<rparr>)"
proof -
  obtain x y where k: "k = (z, x, y)" and n: "normalizeTile z x0 y0 = Inr (x, y)"
    and N: "normalizeTile z x y = Inr (x, y)"
    using assms(1-3) by (rule cache_key_normal)
  show ?thesis
    using assms(4-6) unfolding k
    by (simp add: get_normal [OF n N] get_local_normal [OF N])
qed

lemma get_remote_hit:
  assumes "0 \<le> z" "z \<le> 24" "cache_key (z, x0, y0) = Inr k" "cached (Cache c) k = None"
    and "\<not> (Local c \<noteq> [] \<and> decodable (disk w (Local c, k)))"
    and "Http c \<noteq> []" "decodable (remote w (Http c, k))"
  shows "\<exists>w1. get c w z x0 y0 =
           (Inr (fresh w), c\<lparr>Cache := map_option (\<lambda>cs. admit cs k (fresh w)) (Cache c)\<rparr>, w1)
         \<and> store w1 (fresh w) = image_of (remote w (Http c, k))
         \<and> disk w1 = (if Local c \<noteq> [] \<and> \<not> readonly w (Local c, k)
                       then (disk w)((Local c, k) \<mapsto> Png (image_of (remote w (Http c, k))))
                       else disk w)
         \<and> trace w1 = trace w @ (if Local c \<noteq> [] then [DiskRead (Local c) k] else [])
                         @ [HttpRequest (Http c) k]
                         @ (if Local c \<noteq> [] \<and> \<not> readonly w (Local c, k)
                            then [DiskWrite (Local c) k] else [])"
proof -
  obtain x y where k: "k = (z, x, y)" and n: "normalizeTile z x0 y0 = Inr (x, y)"
    and N: "normalizeTile z x y = Inr (x, y)"
    using assms(1-3) by (rule cache_key_normal)
  show ?thesis
    using assms(4-7) unfolding k
    by (auto simp add: get_normal [OF n N] get_local_normal [OF N] get_http_normal [OF N])
qed


lemma CacheServer_Add_key:
  assumes "0 \<le> z" "z \<le> 24" "cache_key (z, x0, y0) = Inr k"
  shows "CacheServer_Add cs z x0 y0 t = Inr (admit cs k t)"
proof -
  have n: "normalizeTile z x0 y0 = Inr (x0 mod 2 ^ nat z, y0 mod 2 ^ nat z)"
    using assms(1,2) by (rule normalizeTile_mod)
  then have "k = (z, x0 mod 2 ^ nat z, y0 mod 2 ^ nat z)"
    using assms(3) by (simp add: cache_key_def)
  then show ?thesis
    using n by (simp add: CacheServer_Add_def admit_def split: option.splits)
qed

lemma second_Get_from_cache:
  assumes zr: "0 \<le> z" "z \<le> 24" and key: "cache_key (z, x, y) = Inr k"
    and c': "Cache c' = map_option (\<lambda>cs. admit cs k t) (Cache c)"
    and room: "\<exists>cs. Cache c = Some cs \<and> has_room cs"
  shows "cached (Cache c') k = Some t
       \<and> (\<exists>w''. CombinedServer_Get c' w' z x y = (Inr t, c', w'')
              \<and> trace w'' = trace w' \<and> disk w'' = disk w')"
proof -
  obtain cs where cs: "Cache c = Some cs" "has_room cs"
    using room by blast
  have hit: "cached (Cache c') k = Some t"
    using cs c' cached_admit [OF cs(2), of k t] by simp
  have "get c' w' z x y = (Inr t, c', w')"
    using zr key hit by (rule get_cache_hit)
  then show ?thesis
    using hit Get_of_get by blast
qed

text \<open>
  C3, amended. Let \<open>Get\<close> be called at a zoom level in \<open>[0, 24]\<close>, and let \<open>k\<close> be the map
  key of the tile. \<open>Cache.Add\<close> is \<open>admit\<close>: it stores the tile when the cache is enabled and
  has room, and changes nothing otherwise. Then:
  \<^item> if the cache holds a tile for \<open>k\<close>, that tile is returned, and nothing is read,
    requested or written;
  \<^item> else, if the local directory is set and holds a file for \<open>k\<close> that decodes, the
    decoded tile is returned, the disk was read once and not written, no request was made,
    and the cache is the old one after \<open>Cache.Add\<close> of the tile;
  \<^item> else, if the URL is set and the remote server gives an image for \<open>k\<close>, that tile is
    returned, the cache is the old one after \<open>Cache.Add\<close>, and the disk holds the image
    under \<open>k\<close> if the local directory is set and the write does not fail;
  \<^item> after a hit on the disk or the remote server, if the cache is enabled and had room, a
    second \<open>Get\<close> for the same coordinates returns the same tile from the cache, with no
    further read, request or write.
\<close>

theorem CombinedServer_Get_layers:
  assumes zr: "0 \<le> z" "z \<le> 24" and key: "cache_key (z, x, y) = Inr k"
    and G: "CombinedServer_Get c w z x y = (r, c', w')"
  shows "(\<forall>cs t. CacheServer_Add cs z x y t = Inr (admit cs k t))
    \<and> (\<forall>t. cached (Cache c) k = Some t \<longrightarrow>
          r = Inr t \<and> c' = c \<and> trace w' = trace w \<and> disk w' = disk w)
    \<and> (cached (Cache c) k = None \<and> Local c \<noteq> [] \<and> decodable (disk w (Local c, k)) \<longrightarrow>
          r = Inr (fresh w)
          \<and> (Points c = None \<longrightarrow> store w' (fresh w) = image_of (disk w (Local c, k)))
          \<and> Cache c' = map_option (\<lambda>cs. admit cs k (fresh w)) (Cache c)
          \<and> disk w' = disk w
          \<and> trace w' = trace w @ [DiskRead (Local c) k])
    \<and> (cached (Cache c) k = None \<and> \<not> (Local c \<noteq> [] \<and> decodable (disk w (Local c, k)))
          \<and> Http c \<noteq> [] \<and> decodable (remote w (Http c, k)) \<longrightarrow>
          r = Inr (fresh w)
          \<and> (Points c = None \<longrightarrow> store w' (fresh w) = image_of (remote w (Http c, k)))
          \<and> Cache c' = map_option (\<lambda>cs. admit cs k (fresh w)) (Cache c)
          \<and> disk w' = (if Local c \<noteq> [] \<and> \<not> readonly w (Local c, k)
                        then (disk w)((Local c, k) \<mapsto> Png (image_of (remote w (Http c, k))))
                        else disk w)
          \<and> trace w' = trace w @ (if Local c \<noteq> [] then [DiskRead (Local c) k] else [])
                          @ [HttpRequest (Http c) k]
                          @ (if Local c \<noteq> [] \<and> \<not> readonly w (Local c, k)
                             then [DiskWrite (Local c) k] else []))
    \<and> (cached (Cache c) k = None
          \<and> (Local c \<noteq> [] \<and> decodable (disk w (Local c, k))
              \<or> Http c \<noteq> [] \<and> decodable (remote w (Http c, k)))
          \<and> (\<exists>cs. Cache c = Some cs \<and> has_room cs) \<longrightarrow>
          cached (Cache c') k = Some (fresh w)
          \<and> (\<exists>w''. CombinedServer_Get c' w' z x y = (r, c', w'')
                 \<and> trace w'' = trace w' \<and> disk w'' = disk w'))"
proof -
  have A: "r = Inr t \<and> c' = c \<and> trace w' = trace w \<and> disk w' = disk w"
    if "cached (Cache c) k = Some t" for t
    using Get_from_get [OF get_cache_hit [OF zr key that] G] by simp
  have B: "r = Inr (fresh w)
          \<and> (Points c = None \<longrightarrow> store w' (fresh w) = image_of (disk w (Local c, k)))
          \<and> Cache c' = map_option (\<lambda>cs. admit cs k (fresh w)) (Cache c)
          \<and> disk w' = disk w
          \<and> trace w' = trace w @ [DiskRead (Local c) k]"
    if "cached (Cache c) k = None" "Local c \<noteq> []" "decodable (disk w (Local c, k))"
    using Get_from_get [OF get_local_hit [OF zr key that] G] by simp
  have C: "r = Inr (fresh w)
          \<and> (Points c = None \<longrightarrow> store w' (fresh w) = image_of (remote w (Http c, k)))
          \<and> Cache c' = map_option (\<lambda>cs. admit cs k (fresh w)) (Cache c)
          \<and> disk w' = (if Local c \<noteq> [] \<and> \<not> readonly w (Local c, k)
                        then (disk w)((Local c, k) \<mapsto> Png (image_of (remote w (Http c, k))))
                        else disk w)
          \<and> trace w' = trace w @ (if Local c \<noteq> [] then [DiskRead (Local c) k] else [])
                          @ [HttpRequest (Http c) k]
                          @ (if Local c \<noteq> [] \<and> \<not> readonly w (Local c, k)
                             then [DiskWrite (Local c) k] else [])"
    if h: "cached (Cache c) k = None" "\<not> (Local c \<noteq> [] \<and> decodable (disk w (Local c, k)))"
      "Http c \<noteq> []" "decodable (remote w (Http c, k))"
  proof -
    obtain w1 where g: "get c w z x y =
           (Inr (fresh w), c\<lparr>Cache := map_option (\<lambda>cs. admit cs k (fresh w)) (Cache c)\<rparr>, w1)"
      and w1: "store w1 (fresh w) = image_of (remote w (Http c, k))"
        "disk w1 = (if Local c \<noteq> [] \<and> \<not> readonly w (Local c, k)
                       then (disk w)((Local c, k) \<mapsto> Png (image_of (remote w (Http c, k))))
                       else disk w)"
        "trace w1 = trace w @ (if Local c \<noteq> [] then [DiskRead (Local c) k] else [])
                         @ [HttpRequest (Http c) k]
                         @ (if Local c \<noteq> [] \<and> \<not> readonly w (Local c, k)
                            then [DiskWrite (Local c) k] else [])"
      using get_remote_hit [OF zr key h] by blast
    show ?thesis
      using Get_from_get [OF g G] w1 by simp
  qed
  have D: "cached (Cache c') k = Some (fresh w)
          \<and> (\<exists>w''. CombinedServer_Get c' w' z x y = (r, c', w'')
                 \<and> trace w'' = trace w' \<and> disk w'' = disk w')"
    if miss: "cached (Cache c) k = None"
      and hit: "Local c \<noteq> [] \<and> decodable (disk w (Local c, k))
              \<or> Http c \<noteq> [] \<and> decodable (remote w (Http c, k))"
      and room: "\<exists>cs. Cache c = Some cs \<and> has_room cs"
  proof -
    have rc: "r = Inr (fresh w) \<and> Cache c' = map_option (\<lambda>cs. admit cs k (fresh w)) (Cache c)"
    proof (cases "Local c \<noteq> [] \<and> decodable (disk w (Local c, k))")
      case True
      then show ?thesis using B miss by simp
    next
      case False
      then have "Http c \<noteq> []" "decodable (remote w (Http c, k))"
        using hit by blast+
      then show ?thesis using C [OF miss False] by blast
    qed
    show ?thesis
      using second_Get_from_cache [OF zr key _ room, of c' "fresh w" w'] rc by simp
  qed
  show ?thesis
    using CacheServer_Add_key [OF zr key] A B C D by blast
qed


theorem CombinedServer_Get_layers_witness:
  "fst (fst (Get_twice empty_cache_server one_tile_world 1 2 0)) = Inr 1
   \<and> trace (snd (snd (fst (Get_twice empty_cache_server one_tile_world 1 2 0))))
       = [DiskRead ''tiles'' (1, 0, 0)]
   \<and> fst (snd (Get_twice empty_cache_server one_tile_world 1 2 0)) = Inr 1
   \<and> trace (snd (snd (snd (Get_twice empty_cache_server one_tile_world 1 2 0))))
       = [DiskRead ''tiles'' (1, 0, 0)]"
proof -
  let ?c = empty_cache_server
  let ?w = one_tile_world
  have zr: "(0::int) \<le> 1" "(1::int) \<le> 24" by simp_all
  have key: "cache_key (1, 2, 0) = Inr (1, 0, 0)"
    by (simp add: cache_key_def normalizeTile_mod)
  obtain r c1 w1 where G: "CombinedServer_Get ?c ?w 1 2 0 = (r, c1, w1)"
    by (metis prod_cases3)
  have miss: "cached (Cache ?c) (1, 0, 0) = None"
    by (simp add: cached_def NewCacheServer_def empty_cache_server_def)
  have hit: "Local ?c \<noteq> [] \<and> decodable (disk ?w (Local ?c, (1, 0, 0)))"
    by (simp add: decodable_def black_image_def empty_cache_server_def one_tile_world_def)
  have room: "\<exists>cs. Cache ?c = Some cs \<and> has_room cs"
    by (simp add: has_room_def NewCacheServer_def empty_cache_server_def)
  note L = CombinedServer_Get_layers [OF zr key G]
  have B: "r = Inr (fresh ?w) \<and> trace w1 = trace ?w @ [DiskRead (Local ?c) (1, 0, 0)]"
    using L miss hit by blast
  have D: "\<exists>w2. CombinedServer_Get c1 w1 1 2 0 = (r, c1, w2) \<and> trace w2 = trace w1"
    using L miss hit room by blast
  then obtain w2 where G2: "CombinedServer_Get c1 w1 1 2 0 = (r, c1, w2)" "trace w2 = trace w1"
    by blast
  have "Get_twice ?c ?w 1 2 0 = ((r, c1, w1), (r, c1, w2))"
    by (simp add: Get_twice_def G G2(1))
  then show ?thesis
    using B G2(2) by (simp add: empty_cache_server_def one_tile_world_def)
qed

text \<open>
  C3 as stated fails on a cache that is full. The server has a local directory and an
  enabled cache of capacity 1 that holds another tile; the disk holds the tile \<open>(1, 0, 0)\<close>.
  The first \<open>Get\<close> reads it from the disk and \<open>Cache.Add\<close> does not store it; the second \<open>Get\<close>
  reads the disk again and returns a newly decoded tile.
\<close>

theorem second_Get_reads_disk_again:
  "fst (fst (Get_twice full_cache_server one_tile_world 1 0 0)) = Inr 1
   \<and> trace (snd (snd (fst (Get_twice full_cache_server one_tile_world 1 0 0))))
       = [DiskRead ''tiles'' (1, 0, 0)]
   \<and> cached (Cache (fst (snd (fst (Get_twice full_cache_server one_tile_world 1 0 0))))) (1, 0, 0)
       = None
   \<and> fst (snd (Get_twice full_cache_server one_tile_world 1 0 0)) = Inr 2
   \<and> trace (snd (snd (snd (Get_twice full_cache_server one_tile_world 1 0 0))))
       = [DiskRead ''tiles'' (1, 0, 0), DiskRead ''tiles'' (1, 0, 0)]"
proof -
  have N: "normalizeTile 1 0 0 = Inr (0, 0)"
    by (simp add: normalizeTile_mod)
  show ?thesis
    by (simp add: Get_twice_def CombinedServer_Get_def get_normal [OF N N]
        get_local_normal [OF N] cached_def decodable_def black_image_def admit_def
        image_of_def full_cache_server_def one_tile_world_def)
qed

section \<open>Projection: accuracy of the round trip\<close>





























end
